theory Spec2Isabelle
  imports Main
begin

section \<open>The launcher: \<^verbatim>\<open>private_gpt/launcher.py\<close>\<close>

subsection \<open>Settings, routers and the application object\<close>

text \<open>
  The objects \<^verbatim>\<open>create_app\<close> reads and builds. An injector is a Python object; it is
  represented by its identity, so that two names for one object are equal references.
\<close>

type_synonym injector = nat

text \<open>
  The part of \<^verbatim>\<open>Settings\<close> that \<^verbatim>\<open>create_app\<close> reads:
  \<^verbatim>\<open>settings.server.cors.*\<close> and \<^verbatim>\<open>settings.ui.*\<close>. The class is declared in
  \<^verbatim>\<open>private_gpt/settings/settings.py\<close>; the launcher passes the five \<^verbatim>\<open>allow_*\<close> values on
  without inspecting them.
\<close>

record cors_settings =
  enabled :: bool
  allow_credentials :: bool
  allow_origins :: "string list"
  allow_origin_regex :: "string option"
  allow_methods :: "string list"
  allow_headers :: "string list"

record server_settings =
  cors :: cors_settings

record ui_settings =
  ui_enabled :: bool
  path :: string

record settings =
  server :: server_settings
  ui :: ui_settings

text \<open>The seven routers imported at the top of the module.\<close>

datatype router =
  completions_router | chat_router | chunks_router | ingest_router
  | summarize_router | embeddings_router | health_router

text \<open>A request carries \<^verbatim>\<open>request.state.injector\<close>, unset until a dependency writes it.\<close>

record request =
  request_id :: nat
  state_injector :: "injector option"

datatype dependency = Depends "request \<Rightarrow> request"

datatype middleware =
  CORSMiddleware
    (mw_allow_credentials: bool)
    (mw_allow_origins: "string list")
    (mw_allow_origin_regex: "string option")
    (mw_allow_methods: "string list")
    (mw_allow_headers: "string list")

text \<open>The object that \<^verbatim>\<open>root_injector.get(PrivateGptUi)\<close> returns.\<close>

datatype private_gpt_ui = PrivateGptUi

record fastapi =
  dependencies :: "dependency list"
  routers :: "router list"
  user_middleware :: "middleware list"
  mounts :: "(string \<times> private_gpt_ui) list"

datatype error = ImportError string

text \<open>
  State outside the application object that \<^verbatim>\<open>create_app\<close> reaches. It writes two places
  itself: \<^verbatim>\<open>LlamaIndexSettings.callback_manager\<close>, and the file \<^verbatim>\<open>lanch.json\<close>, to which the
  handler installed by \<^verbatim>\<open>setup_logging\<close> (root logger, level DEBUG) appends one record per
  message. It also executes statements whose effect lies in code outside this module: the
  call \<^verbatim>\<open>create_global_handler("simple")\<close>, the calls \<^verbatim>\<open>root_injector.get(...)\<close>, which may
  construct and cache objects in the injector, and the statement
  \<^verbatim>\<open>from private_gpt.ui.ui import PrivateGptUi\<close>, which registers modules in the
  interpreter's module table. What those statements write is decided outside the sources, so
  the state keeps the sequence of them that has been executed.
\<close>

datatype handler = SimpleHandler

datatype callback_manager = CallbackManager "handler list"

datatype external_call =
  Call_create_global_handler string
  | Call_injector_get injector string
  | Import_module string

record globals =
  callback_manager :: callback_manager
  lanch_json :: "string list"
  external_calls :: "external_call list"

subsection \<open>The operations of the framework that \<^verbatim>\<open>create_app\<close> calls\<close>

definition FastAPI :: "dependency list \<Rightarrow> fastapi" where
  "FastAPI deps = \<lparr>dependencies = deps, routers = [], user_middleware = [], mounts = []\<rparr>"

definition include_router :: "router \<Rightarrow> fastapi \<Rightarrow> fastapi" where
  "include_router r app = app\<lparr>routers := routers app @ [r]\<rparr>"

text \<open>Starlette's \<^verbatim>\<open>add_middleware\<close> inserts at the front of \<^verbatim>\<open>user_middleware\<close>.\<close>

definition add_middleware :: "middleware \<Rightarrow> fastapi \<Rightarrow> fastapi" where
  "add_middleware m app = app\<lparr>user_middleware := m # user_middleware app\<rparr>"

definition logger_debug :: "string \<Rightarrow> 'a globals_scheme \<Rightarrow> 'a globals_scheme" where
  "logger_debug msg g = g\<lparr>lanch_json := lanch_json g @ [msg]\<rparr>"

text \<open>Executing one of the statements whose effect lies outside this module.\<close>

definition executes :: "external_call \<Rightarrow> 'a globals_scheme \<Rightarrow> 'a globals_scheme" where
  "executes c g = g\<lparr>external_calls := external_calls g @ [c]\<rparr>"

text \<open>
  Modelled from the spec: \<^verbatim>\<open>PrivateGptUi.mount_in_app\<close> is defined in
  \<^verbatim>\<open>private_gpt/ui/ui.py\<close>, which is not among the sources. The spec says that the assembler
  "resolves and mounts the UI Layout Builder's output at \<^verbatim>\<open>uiPath\<close>".
\<close>

definition mount_in_app :: "private_gpt_ui \<Rightarrow> fastapi \<Rightarrow> string \<Rightarrow> fastapi" where
  "mount_in_app u app p = app\<lparr>mounts := mounts app @ [(p, u)]\<rparr>"

text \<open>Running the application-level dependencies on a request, before any router.\<close>

fun run_dependencies :: "dependency list \<Rightarrow> request \<Rightarrow> request" where
  "run_dependencies [] req = req"
| "run_dependencies (Depends f # ds) req = run_dependencies ds (f req)"

subsection \<open>\<^verbatim>\<open>create_app\<close>\<close>

definition bind_injector_to_request :: "injector \<Rightarrow> request \<Rightarrow> request" where
  "bind_injector_to_request root_injector req = req\<lparr>state_injector := Some root_injector\<rparr>"

definition ui_import_error :: string where
  "ui_import_error = ''UI dependencies not found, install with `poetry install --extras ui`''"

text \<open>
  \<^verbatim>\<open>create_app root_injector\<close>. The values the function obtains from its environment are
  parameters: \<open>st\<close> is \<^verbatim>\<open>root_injector.get(Settings)\<close>, \<open>global_handler\<close> is what
  \<^verbatim>\<open>create_global_handler("simple")\<close> returns (\<open>None\<close> for a falsy result), and \<open>ui_module\<close>
  is the outcome of importing \<^verbatim>\<open>private_gpt.ui.ui\<close> and asking the injector for a
  \<^verbatim>\<open>PrivateGptUi\<close> (\<open>None\<close> when the import raises; the injector is then not asked). An
  exception does not undo the writes made before it, so the globals are returned beside the
  result.
\<close>

definition create_app ::
  "injector \<Rightarrow> settings \<Rightarrow> handler option \<Rightarrow> private_gpt_ui option \<Rightarrow> 'a globals_scheme
    \<Rightarrow> (error + fastapi) \<times> 'a globals_scheme" where
  "create_app root_injector st global_handler ui_module g =
    (let app = FastAPI [Depends (bind_injector_to_request root_injector)];
         app = include_router completions_router app;
         app = include_router chat_router app;
         app = include_router chunks_router app;
         app = include_router ingest_router app;
         app = include_router summarize_router app;
         app = include_router embeddings_router app;
         app = include_router health_router app;
         g = executes (Call_create_global_handler ''simple'') g;
         g = (case global_handler of
                Some h \<Rightarrow> g\<lparr>callback_manager := CallbackManager [h]\<rparr>
              | None \<Rightarrow> g);
         g = executes (Call_injector_get root_injector ''Settings'') g;
         (app, g) =
           (if enabled (cors (server st)) then
              (add_middleware
                 (CORSMiddleware
                    (allow_credentials (cors (server st)))
                    (allow_origins (cors (server st)))
                    (allow_origin_regex (cors (server st)))
                    (allow_methods (cors (server st)))
                    (allow_headers (cors (server st)))) app,
               logger_debug ''Setting up CORS middleware'' g)
            else (app, g))
     in if ui_enabled (ui st) then
          (let g = logger_debug ''Importing the UI module'' g;
               g = executes (Import_module ''private_gpt.ui.ui'') g
           in case ui_module of
                None \<Rightarrow> (Inl (ImportError ui_import_error), g)
              | Some u \<Rightarrow>
                  (let g = executes (Call_injector_get root_injector ''PrivateGptUi'') g
                   in (Inr (mount_in_app u app (path (ui st))), g)))
        else (Inr app, g))"

text \<open>Concrete inputs for the examples below.\<close>

definition cors_wildcard :: cors_settings where
  "cors_wildcard =
    \<lparr>enabled = True, allow_credentials = False, allow_origins = [''*''],
     allow_origin_regex = None, allow_methods = [''GET'', ''POST''], allow_headers = [''*'']\<rparr>"

definition settings_cors_ui :: settings where
  "settings_cors_ui =
    \<lparr>server = \<lparr>cors = cors_wildcard\<rparr>, ui = \<lparr>ui_enabled = True, path = ''/''\<rparr>\<rparr>"

definition settings_plain :: settings where
  "settings_plain =
    \<lparr>server = \<lparr>cors = cors_wildcard\<lparr>enabled := False\<rparr>\<rparr>,
     ui = \<lparr>ui_enabled = False, path = ''/''\<rparr>\<rparr>"

definition globals0 :: globals where
  "globals0 = \<lparr>callback_manager = CallbackManager [], lanch_json = [], external_calls = []\<rparr>"

definition request1 :: request where
  "request1 = \<lparr>request_id = 1, state_injector = None\<rparr>"

definition request2 :: request where
  "request2 = \<lparr>request_id = 2, state_injector = None\<rparr>"

section \<open>The user interface: \<^verbatim>\<open>Tin/test/test_ui.py\<close>\<close>

subsection \<open>Modes and components\<close>

datatype Modes = RAG_MODE | SEARCH_MODE | BASIC_CHAT_MODE | SUMMARIZE_MODE

fun Modes_value :: "Modes \<Rightarrow> string" where
  "Modes_value RAG_MODE = ''RAG''"
| "Modes_value SEARCH_MODE = ''Search''"
| "Modes_value BASIC_CHAT_MODE = ''Basic''"
| "Modes_value SUMMARIZE_MODE = ''Summarize''"

definition MODES :: "Modes list" where
  "MODES = [RAG_MODE, SEARCH_MODE, BASIC_CHAT_MODE, SUMMARIZE_MODE]"

text \<open>
  Modelled from the spec: the rows of the \<^verbatim>\<open>ingested_dataset\<close> list are produced by code
  that is not among the sources. The spec's data model gives an IngestedFile the attributes
  \<^verbatim>\<open>display_name\<close> and \<^verbatim>\<open>internal_reference\<close>.
\<close>

record ingested_file =
  display_name :: string
  internal_reference :: string

text \<open>
  The components that \<^verbatim>\<open>_build_ui_blocks\<close> creates and that an event listener reads or
  writes, under the names of the Python variables that hold them.
\<close>

datatype component =
  mode | explanation_mode | upload_button | ingested_dataset | deselect_file_button
  | selected_text | delete_file_button | delete_files_button | system_prompt_input
  | sidebar_left | sidebar_state | btn_toggle_sidebar

text \<open>
  The properties of those components that change at run time. A text box created without a
  value holds \<open>None\<close>; so does the radio group.
\<close>

record blocks =
  mode_value :: "string option"
  explanation_mode_value :: "string option"
  ingested_dataset_value :: "ingested_file list"
  deselect_file_button_interactive :: bool
  selected_text_value :: string
  delete_file_button_interactive :: bool
  delete_files_button_interactive :: bool
  system_prompt_input_value :: "string option"
  sidebar_left_visible :: bool
  sidebar_state_value :: bool

text \<open>
  The state in which \<^verbatim>\<open>_build_ui_blocks\<close> creates the components: the sidebar column with
  \<^verbatim>\<open>visible=False\<close>, the de-select and delete-selected buttons with \<^verbatim>\<open>interactive=False\<close>,
  the delete-all button with no \<^verbatim>\<open>interactive\<close> argument (a \<^verbatim>\<open>gr.Button\<close> is then
  interactive), the selection text box with \<^verbatim>\<open>"All files"\<close>, and \<^verbatim>\<open>gr.State(False)\<close>.
  The argument is the part of the state that is not a component.
\<close>

definition build_ui_blocks :: "'a \<Rightarrow> 'a blocks_scheme" where
  "build_ui_blocks rest =
    \<lparr>mode_value = None,
     explanation_mode_value = None,
     ingested_dataset_value = [],
     deselect_file_button_interactive = False,
     selected_text_value = ''All files'',
     delete_file_button_interactive = False,
     delete_files_button_interactive = True,
     system_prompt_input_value = None,
     sidebar_left_visible = False,
     sidebar_state_value = False,
     \<dots> = rest\<rparr>"

subsection \<open>Event listeners\<close>

text \<open>
  A listener is declared on a component for one kind of event, with the components it reads
  (\<^verbatim>\<open>inputs\<close>) and the components its function's results are written to (\<^verbatim>\<open>outputs\<close>).
\<close>

datatype listener = Upload | Change | Click | Select | Blur

record binding =
  trigger :: component
  event_kind :: listener
  inputs :: "component list"
  outputs :: "component list"

definition upload_button_upload :: binding where
  "upload_button_upload =
    \<lparr>trigger = upload_button, event_kind = Upload,
     inputs = [upload_button], outputs = [ingested_dataset]\<rparr>"

definition ingested_dataset_change :: binding where
  "ingested_dataset_change =
    \<lparr>trigger = ingested_dataset, event_kind = Change,
     inputs = [], outputs = [ingested_dataset]\<rparr>"

definition deselect_file_button_click :: binding where
  "deselect_file_button_click =
    \<lparr>trigger = deselect_file_button, event_kind = Click,
     inputs = [], outputs = [delete_file_button, deselect_file_button, selected_text]\<rparr>"

definition ingested_dataset_select :: binding where
  "ingested_dataset_select =
    \<lparr>trigger = ingested_dataset, event_kind = Select,
     inputs = [], outputs = [delete_file_button, deselect_file_button, selected_text]\<rparr>"

definition delete_file_button_click :: binding where
  "delete_file_button_click =
    \<lparr>trigger = delete_file_button, event_kind = Click,
     inputs = [],
     outputs = [ingested_dataset, delete_file_button, deselect_file_button, selected_text]\<rparr>"

definition delete_files_button_click :: binding where
  "delete_files_button_click =
    \<lparr>trigger = delete_files_button, event_kind = Click,
     inputs = [],
     outputs = [ingested_dataset, delete_file_button, deselect_file_button, selected_text]\<rparr>"

definition mode_change :: binding where
  "mode_change =
    \<lparr>trigger = mode, event_kind = Change,
     inputs = [mode], outputs = [system_prompt_input, explanation_mode]\<rparr>"

definition system_prompt_input_blur :: binding where
  "system_prompt_input_blur =
    \<lparr>trigger = system_prompt_input, event_kind = Blur,
     inputs = [system_prompt_input], outputs = []\<rparr>"

definition btn_toggle_sidebar_click :: binding where
  "btn_toggle_sidebar_click =
    \<lparr>trigger = btn_toggle_sidebar, event_kind = Click,
     inputs = [sidebar_state], outputs = [sidebar_left, sidebar_state]\<rparr>"

text \<open>Every listener that \<^verbatim>\<open>_build_ui_blocks\<close> registers, in source order.\<close>

definition bindings :: "binding list" where
  "bindings =
    [upload_button_upload, ingested_dataset_change, deselect_file_button_click,
     ingested_dataset_select, delete_file_button_click, delete_files_button_click,
     mode_change, system_prompt_input_blur, btn_toggle_sidebar_click]"

text \<open>
  What a listener's function returns for one output component: a new value, or a
  \<^verbatim>\<open>gr.update\<close> of the \<^verbatim>\<open>interactive\<close> or \<^verbatim>\<open>visible\<close> property.
\<close>

datatype update =
  Value_rows "ingested_file list" | Value_text string | Value_flag bool
  | Interactive bool | Visible bool

text \<open>
  Writing one returned update to one output component. An update of a property that the
  record does not hold leaves the record as it is.
\<close>

fun apply_update :: "component \<Rightarrow> update \<Rightarrow> 'a blocks_scheme \<Rightarrow> 'a blocks_scheme" where
  "apply_update mode (Value_text t) b = b\<lparr>mode_value := Some t\<rparr>"
| "apply_update explanation_mode (Value_text t) b = b\<lparr>explanation_mode_value := Some t\<rparr>"
| "apply_update ingested_dataset (Value_rows fs) b = b\<lparr>ingested_dataset_value := fs\<rparr>"
| "apply_update deselect_file_button (Interactive i) b =
     b\<lparr>deselect_file_button_interactive := i\<rparr>"
| "apply_update selected_text (Value_text t) b = b\<lparr>selected_text_value := t\<rparr>"
| "apply_update delete_file_button (Interactive i) b =
     b\<lparr>delete_file_button_interactive := i\<rparr>"
| "apply_update delete_files_button (Interactive i) b =
     b\<lparr>delete_files_button_interactive := i\<rparr>"
| "apply_update system_prompt_input (Value_text t) b = b\<lparr>system_prompt_input_value := Some t\<rparr>"
| "apply_update sidebar_left (Visible v) b = b\<lparr>sidebar_left_visible := v\<rparr>"
| "apply_update sidebar_state (Value_flag v) b = b\<lparr>sidebar_state_value := v\<rparr>"
| "apply_update _ _ b = b"

text \<open>
  Firing a listener: the results of its function are written to its outputs, position by
  position. No other component is written.
\<close>

fun fire :: "component list \<Rightarrow> update list \<Rightarrow> 'a blocks_scheme \<Rightarrow> 'a blocks_scheme" where
  "fire (c # cs) (u # us) b = fire cs us (apply_update c u b)"
| "fire _ _ b = b"

text \<open>A run of listeners, each with the results its function returned.\<close>

fun fire_all :: "(binding \<times> update list) list \<Rightarrow> 'a blocks_scheme \<Rightarrow> 'a blocks_scheme" where
  "fire_all [] b = b"
| "fire_all ((l, us) # fs) b = fire_all fs (fire (outputs l) us b)"

subsection \<open>The sidebar toggle\<close>

text \<open>
  \<^verbatim>\<open>toggle_sidebar(state)\<close> negates its argument and returns
  \<^verbatim>\<open>gr.update(visible=state), state\<close>.
\<close>

definition toggle_sidebar :: "bool \<Rightarrow> update list" where
  "toggle_sidebar state = (let state = \<not> state in [Visible state, Value_flag state])"

text \<open>
  \<^verbatim>\<open>btn_toggle_sidebar.click(toggle_sidebar, [sidebar_state], [sidebar_left, sidebar_state])\<close>:
  the function is applied to the value of \<^verbatim>\<open>sidebar_state\<close>.
\<close>

definition click_btn_toggle_sidebar :: "'a blocks_scheme \<Rightarrow> 'a blocks_scheme" where
  "click_btn_toggle_sidebar b =
    fire (outputs btn_toggle_sidebar_click) (toggle_sidebar (sidebar_state_value b)) b"

subsection \<open>The session controller\<close>

text \<open>
  Modelled from the spec: the functions of the listeners for upload, select, de-select,
  delete-selected and delete-all are not among the sources (each \<^verbatim>\<open>.upload\<close>, \<^verbatim>\<open>.select\<close>
  and \<^verbatim>\<open>.click\<close> call of the source but the sidebar's names its outputs and no function).
  The definitions of this subsection follow section 4.2 of the spec; what they return is
  written through the outputs that the source declares.
\<close>

datatype selection = AllFiles | OneFile ingested_file

record session = blocks +
  selection :: selection

definition initial_session :: session where
  "initial_session = build_ui_blocks \<lparr>selection = AllFiles\<rparr>"

text \<open>
  Modelled from the spec: "UploadFiles(paths) appends one IngestedFile per path to files
  (order preserved); does not change selection." The collaborator that turns a path into an
  IngestedFile is the parameter \<open>ingest\<close>.
\<close>

definition upload_files :: "(string \<Rightarrow> ingested_file) \<Rightarrow> string list \<Rightarrow> session \<Rightarrow> session" where
  "upload_files ingest paths s =
    fire (outputs upload_button_upload)
      [Value_rows (ingested_dataset_value s @ map ingest paths)] s"

text \<open>
  Modelled from the spec: "FilesListChanged: purely reactive, produces no state change
  beyond triggering a re-render."
\<close>

definition files_list_changed :: "session \<Rightarrow> session" where
  "files_list_changed s =
    fire (outputs ingested_dataset_change) [Value_rows (ingested_dataset_value s)] s"

text \<open>
  Modelled from the spec: "SelectFile(ref) sets selection = ref; enables the single-file
  delete control and the deselect control; updates the selection display text to the
  file's display name."
\<close>

definition select_file :: "ingested_file \<Rightarrow> session \<Rightarrow> session" where
  "select_file f s =
    (fire (outputs ingested_dataset_select)
       [Interactive True, Interactive True, Value_text (display_name f)] s)
    \<lparr>selection := OneFile f\<rparr>"

text \<open>
  Modelled from the spec: "DeselectFile sets selection = all; disables the single-file
  delete control and the deselect control; resets selection display text to All files."
\<close>

definition deselect_file :: "session \<Rightarrow> session" where
  "deselect_file s =
    (fire (outputs deselect_file_button_click)
       [Interactive False, Interactive False, Value_text ''All files''] s)
    \<lparr>selection := AllFiles\<rparr>"

text \<open>
  Modelled from the spec: "DeleteSelected: precondition selection \<noteq> all. Removes the
  referenced IngestedFile from files; sets selection = all; disables delete/deselect
  controls; resets display text. If the external deletion call fails, state must not
  change." The flag \<open>ok\<close> is the outcome of the external \<^verbatim>\<open>deleteFile\<close> call; the result is
  \<open>None\<close> where the precondition does not hold.
\<close>

definition delete_selected_file :: "bool \<Rightarrow> session \<Rightarrow> session option" where
  "delete_selected_file ok s =
    (case selection s of
       AllFiles \<Rightarrow> None
     | OneFile f \<Rightarrow>
         Some (if ok then
                 (fire (outputs delete_file_button_click)
                    [Value_rows (filter (\<lambda>g. g \<noteq> f) (ingested_dataset_value s)),
                     Interactive False, Interactive False, Value_text ''All files''] s)
                 \<lparr>selection := AllFiles\<rparr>
               else s))"

text \<open>
  Modelled from the spec: "DeleteAll removes every entry from files; sets selection = all;
  disables delete/deselect controls; resets display text", all or nothing; \<open>ok\<close> is the
  outcome of the external \<^verbatim>\<open>deleteAllFiles\<close> call.
\<close>

definition delete_all_files :: "bool \<Rightarrow> session \<Rightarrow> session" where
  "delete_all_files ok s =
    (if ok then
       (fire (outputs delete_files_button_click)
          [Value_rows [], Interactive False, Interactive False, Value_text ''All files''] s)
       \<lparr>selection := AllFiles\<rparr>
     else s)"

text \<open>
  Modelled from the spec: the dispatch of user actions to the functions above, which are not
  among the sources. A violated precondition "must be prevented structurally by disabling
  the triggering control": a click on a button that is not interactive does nothing, a row
  can be selected only if the list shows it, and delete-selected does nothing where its
  precondition fails. The sidebar toggle is the listener of the source.
\<close>

datatype event =
  UploadFiles "string list" | FilesListChanged | SelectFile ingested_file | DeselectFile
  | DeleteSelected bool | DeleteAll bool | ToggleSidebar

fun step :: "(string \<Rightarrow> ingested_file) \<Rightarrow> event \<Rightarrow> session \<Rightarrow> session" where
  "step ingest (UploadFiles paths) s = upload_files ingest paths s"
| "step ingest FilesListChanged s = files_list_changed s"
| "step ingest (SelectFile f) s =
     (if f \<in> set (ingested_dataset_value s) then select_file f s else s)"
| "step ingest DeselectFile s =
     (if deselect_file_button_interactive s then deselect_file s else s)"
| "step ingest (DeleteSelected ok) s =
     (if delete_file_button_interactive s then
        (case delete_selected_file ok s of Some s' \<Rightarrow> s' | None \<Rightarrow> s)
      else s)"
| "step ingest (DeleteAll ok) s =
     (if delete_files_button_interactive s then delete_all_files ok s else s)"
| "step ingest ToggleSidebar s = click_btn_toggle_sidebar s"

fun run :: "(string \<Rightarrow> ingested_file) \<Rightarrow> event list \<Rightarrow> session \<Rightarrow> session" where
  "run ingest [] s = s"
| "run ingest (ev # evs) s = run ingest evs (step ingest ev s)"

text \<open>
  Modelled from the spec: "selection must always reference a file currently present in the
  ingested collection, or be the sentinel all".
\<close>

definition selection_valid :: "session \<Rightarrow> bool" where
  "selection_valid s =
    (case selection s of
       AllFiles \<Rightarrow> True
     | OneFile f \<Rightarrow> f \<in> set (ingested_dataset_value s))"

text \<open>
  Modelled from the spec: the selection is valid, and "controls that require a live
  selection (delete-one, deselect) are enabled if and only if selection \<noteq> all".
\<close>

definition session_inv :: "session \<Rightarrow> bool" where
  "session_inv s =
    (selection_valid s
     \<and> delete_file_button_interactive s = (selection s \<noteq> AllFiles)
     \<and> deselect_file_button_interactive s = (selection s \<noteq> AllFiles))"

text \<open>Concrete inputs for the examples below.\<close>

definition ingest_by_name :: "string \<Rightarrow> ingested_file" where
  "ingest_by_name p = \<lparr>display_name = p, internal_reference = p\<rparr>"

definition a_pdf :: ingested_file where
  "a_pdf = ingest_by_name ''a.pdf''"

definition b_pdf :: ingested_file where
  "b_pdf = ingest_by_name ''b.pdf''"

text \<open>The session after uploading \<^verbatim>\<open>a.pdf\<close> and \<^verbatim>\<open>b.pdf\<close> and selecting \<^verbatim>\<open>b.pdf\<close>.\<close>

definition session_b_selected :: session where
  "session_b_selected =
    run ingest_by_name [UploadFiles [''a.pdf'', ''b.pdf''], SelectFile b_pdf] initial_session"

text \<open>The session after then deleting it, uploading it again and deleting all files.\<close>

definition session_emptied :: session where
  "session_emptied =
    run ingest_by_name
      [UploadFiles [''a.pdf'', ''b.pdf''], SelectFile b_pdf, DeleteSelected True,
       UploadFiles [''b.pdf''], DeleteAll True] initial_session"

section \<open>Properties of the launcher\<close>

lemmas launcher_defs =
  create_app_def Let_def FastAPI_def include_router_def add_middleware_def
  mount_in_app_def logger_debug_def executes_def

subsection \<open>The injector bound to a request\<close>

text \<open>
  C1, as stated, fails. The claim asks that the context bound to one request is never the
  same object as the context bound to another. \<^verbatim>\<open>bind_injector_to_request\<close> constructs
  nothing: it stores the reference \<^verbatim>\<open>root_injector\<close>, captured once by \<^verbatim>\<open>create_app\<close>, in
  \<^verbatim>\<open>request.state.injector\<close>. Two distinct requests therefore hold the same injector.
\<close>

theorem bind_injector_shared_counterexample:
  "request_id request1 \<noteq> request_id request2 \<and>
   state_injector (bind_injector_to_request 7 request1)
     = state_injector (bind_injector_to_request 7 request2)"
  by (simp add: bind_injector_to_request_def request1_def request2_def)

text \<open>
  C1, amended. For every application that \<^verbatim>\<open>create_app\<close> returns and every request, running
  the application's dependencies changes the request in exactly one place: its
  \<^verbatim>\<open>state.injector\<close> becomes the root injector that was given to \<^verbatim>\<open>create_app\<close>. All requests
  of one application are bound to that one injector; the binder writes to the request only.
\<close>

theorem request_injector_is_root:
  "fst (create_app root_injector st global_handler ui_module g) = Inr app
   \<Longrightarrow> run_dependencies (dependencies app) req = req\<lparr>state_injector := Some root_injector\<rparr>"
  by (auto simp: launcher_defs bind_injector_to_request_def split: if_splits option.splits)

theorem request_injector_is_root_witness:
  "(\<exists>app. fst (create_app 7 settings_plain None None globals0) = Inr app \<and>
      run_dependencies (dependencies app) request1 = \<lparr>request_id = 1, state_injector = Some 7\<rparr> \<and>
      run_dependencies (dependencies app) request2 = \<lparr>request_id = 2, state_injector = Some 7\<rparr>)"
proof -
  obtain app where a: "fst (create_app 7 settings_plain None None globals0) = Inr app"
    by (simp add: launcher_defs settings_plain_def cors_wildcard_def)
  from request_injector_is_root [OF a, of request1] request_injector_is_root [OF a, of request2] a
  show ?thesis by (simp add: request1_def request2_def)
qed

subsection \<open>The side effects of assembly\<close>




subsection \<open>Mounting the user interface\<close>

text \<open>
  C3. With the UI enabled and its module not importable, \<^verbatim>\<open>create_app\<close> raises the
  \<^verbatim>\<open>ImportError\<close> that names the missing extra and returns no application; with the UI
  enabled and the module available, the returned application has the UI mounted at
  \<^verbatim>\<open>settings.ui.path\<close> and nothing else mounted; with the UI disabled, an application is
  returned that has nothing mounted.
\<close>

theorem create_app_ui:
  "(ui_enabled (ui st) \<and> ui_module = None \<longrightarrow>
      fst (create_app root_injector st global_handler ui_module g)
        = Inl (ImportError ''UI dependencies not found, install with `poetry install --extras ui`''))
   \<and> (ui_enabled (ui st) \<and> ui_module = Some u \<longrightarrow>
      (\<exists>app. fst (create_app root_injector st global_handler ui_module g) = Inr app
             \<and> mounts app = [(path (ui st), u)]))
   \<and> (\<not> ui_enabled (ui st) \<longrightarrow>
      (\<exists>app. fst (create_app root_injector st global_handler ui_module g) = Inr app
             \<and> mounts app = []))"
  by (auto simp: launcher_defs ui_import_error_def split: if_splits option.splits)

theorem create_app_ui_witness:
  "fst (create_app 7 settings_cors_ui None None globals0)
     = Inl (ImportError ''UI dependencies not found, install with `poetry install --extras ui`'')
   \<and> (\<exists>app. fst (create_app 7 settings_cors_ui None (Some PrivateGptUi) globals0) = Inr app
             \<and> mounts app = [(''/'', PrivateGptUi)])
   \<and> (\<exists>app. fst (create_app 7 settings_plain None (Some PrivateGptUi) globals0) = Inr app
             \<and> mounts app = [])"
  using create_app_ui [of settings_cors_ui None 7 None globals0 PrivateGptUi]
    create_app_ui [of settings_cors_ui "Some PrivateGptUi" 7 None globals0 PrivateGptUi]
    create_app_ui [of settings_plain "Some PrivateGptUi" 7 None globals0 PrivateGptUi]
  by (simp add: settings_cors_ui_def settings_plain_def cors_wildcard_def)

subsection \<open>The cross-origin middleware\<close>

text \<open>
  C4. Unless the UI is enabled and its module cannot be imported, \<^verbatim>\<open>create_app\<close> returns an
  application, and every application it returns has a CORS middleware if and only if
  \<^verbatim>\<open>settings.server.cors.enabled\<close> holds: when it holds, the middleware list is the single
  \<^verbatim>\<open>CORSMiddleware\<close> whose five arguments are the settings' \<^verbatim>\<open>allow_credentials\<close>,
  \<^verbatim>\<open>allow_origins\<close>, \<^verbatim>\<open>allow_origin_regex\<close>, \<^verbatim>\<open>allow_methods\<close> and \<^verbatim>\<open>allow_headers\<close>, unchanged;
  otherwise the list is empty.
\<close>

theorem create_app_cors:
  "(\<not> (ui_enabled (ui st) \<and> ui_module = None) \<longrightarrow>
      (\<exists>app. fst (create_app root_injector st global_handler ui_module g) = Inr app))
   \<and> (\<forall>app. fst (create_app root_injector st global_handler ui_module g) = Inr app \<longrightarrow>
        user_middleware app =
          (if enabled (cors (server st)) then
             [CORSMiddleware
                (allow_credentials (cors (server st)))
                (allow_origins (cors (server st)))
                (allow_origin_regex (cors (server st)))
                (allow_methods (cors (server st)))
                (allow_headers (cors (server st)))]
           else []))"
  by (auto simp: launcher_defs split: if_splits option.splits)

theorem create_app_cors_witness:
  "(\<exists>app. fst (create_app 7 settings_cors_ui None (Some PrivateGptUi) globals0) = Inr app
      \<and> user_middleware app = [CORSMiddleware False [''*''] None [''GET'', ''POST''] [''*'']])
   \<and> (\<exists>app. fst (create_app 7 settings_plain None None globals0) = Inr app
      \<and> user_middleware app = [])"
proof -
  note on = create_app_cors [of settings_cors_ui "Some PrivateGptUi" 7 None globals0]
  note off = create_app_cors [of settings_plain None 7 None globals0]
  from on obtain a1
    where a1: "fst (create_app 7 settings_cors_ui None (Some PrivateGptUi) globals0) = Inr a1"
    by (auto simp: settings_cors_ui_def)
  from off obtain a2
    where a2: "fst (create_app 7 settings_plain None None globals0) = Inr a2"
    by (auto simp: settings_plain_def)
  from on a1 have m1:
    "user_middleware a1 = [CORSMiddleware False [''*''] None [''GET'', ''POST''] [''*'']]"
    by (simp add: settings_cors_ui_def cors_wildcard_def)
  from off a2 have m2: "user_middleware a2 = []"
    by (simp add: settings_plain_def cors_wildcard_def)
  from a1 a2 m1 m2 show ?thesis by simp
qed

subsection \<open>The order of the routers\<close>

text \<open>
  C5. Unless the UI is enabled and its module cannot be imported, \<^verbatim>\<open>create_app\<close> returns an
  application, and every application it returns has its routers mounted in the order
  completions, chat, chunks, ingest, summarize, embeddings, health, whatever the injector,
  the settings, the global handler, the UI module and the global state are.
\<close>

theorem create_app_router_order:
  "(\<not> (ui_enabled (ui st) \<and> ui_module = None) \<longrightarrow>
      (\<exists>app. fst (create_app root_injector st global_handler ui_module g) = Inr app))
   \<and> (\<forall>app. fst (create_app root_injector st global_handler ui_module g) = Inr app \<longrightarrow>
        routers app =
          [completions_router, chat_router, chunks_router, ingest_router,
           summarize_router, embeddings_router, health_router])"
  by (auto simp: launcher_defs split: if_splits option.splits)

theorem create_app_router_order_witness:
  "(\<exists>app. fst (create_app 7 settings_cors_ui (Some SimpleHandler) (Some PrivateGptUi) globals0)
            = Inr app
      \<and> routers app =
          [completions_router, chat_router, chunks_router, ingest_router,
           summarize_router, embeddings_router, health_router])
   \<and> (\<exists>app. fst (create_app 7 settings_plain None None globals0) = Inr app
      \<and> routers app =
          [completions_router, chat_router, chunks_router, ingest_router,
           summarize_router, embeddings_router, health_router])"
proof -
  note ui_on =
    create_app_router_order
      [of settings_cors_ui "Some PrivateGptUi" 7 "Some SimpleHandler" globals0]
  note ui_off = create_app_router_order [of settings_plain None 7 None globals0]
  from ui_on obtain a1
    where a1: "fst (create_app 7 settings_cors_ui (Some SimpleHandler) (Some PrivateGptUi)
                 globals0) = Inr a1"
    by (auto simp: settings_cors_ui_def)
  from ui_off obtain a2
    where a2: "fst (create_app 7 settings_plain None None globals0) = Inr a2"
    by (auto simp: settings_plain_def)
  from ui_on ui_off a1 a2 show ?thesis by simp
qed

section \<open>Properties of the user interface\<close>

lemmas binding_defs =
  bindings_def upload_button_upload_def ingested_dataset_change_def
  deselect_file_button_click_def ingested_dataset_select_def delete_file_button_click_def
  delete_files_button_click_def mode_change_def system_prompt_input_blur_def
  btn_toggle_sidebar_click_def

lemmas controller_defs =
  upload_files_def files_list_changed_def select_file_def deselect_file_def
  delete_selected_file_def delete_all_files_def click_btn_toggle_sidebar_def
  toggle_sidebar_def Let_def

lemmas example_defs =
  initial_session_def build_ui_blocks_def session_b_selected_def a_pdf_def b_pdf_def
  ingest_by_name_def

subsection \<open>Deleting the selected file\<close>

text \<open>
  C6. With a file selected, a delete-selected whose external deletion succeeds removes that
  file from the list and keeps every other entry in order, sets the selection to the
  sentinel, disables the delete-selected and de-select buttons and resets the display text
  to \<^verbatim>\<open>All files\<close>, changing nothing else; a delete-selected whose external deletion fails
  leaves the whole session as it was.
\<close>

theorem delete_selected_file_atomic:
  "selection s = OneFile f \<Longrightarrow>
     delete_selected_file True s =
       Some (s\<lparr>ingested_dataset_value := filter (\<lambda>g. g \<noteq> f) (ingested_dataset_value s),
               deselect_file_button_interactive := False,
               selected_text_value := ''All files'',
               delete_file_button_interactive := False,
               selection := AllFiles\<rparr>)
     \<and> delete_selected_file False s = Some s"
  by (simp add: delete_selected_file_def delete_file_button_click_def)

theorem delete_selected_file_atomic_witness:
  "selection session_b_selected = OneFile b_pdf
   \<and> ingested_dataset_value session_b_selected = [a_pdf, b_pdf]
   \<and> delete_selected_file True session_b_selected =
       Some (initial_session\<lparr>ingested_dataset_value := [a_pdf]\<rparr>)
   \<and> delete_selected_file False session_b_selected = Some session_b_selected"
proof -
  have sel: "selection session_b_selected = OneFile b_pdf"
    by (simp add: example_defs controller_defs binding_defs)
  have files: "ingested_dataset_value session_b_selected = [a_pdf, b_pdf]"
    by (simp add: example_defs controller_defs binding_defs)
  have rest: "filter (\<lambda>g. g \<noteq> b_pdf) [a_pdf, b_pdf] = [a_pdf]"
    by (simp add: a_pdf_def b_pdf_def ingest_by_name_def)
  have eq:
    "session_b_selected
       \<lparr>ingested_dataset_value := [a_pdf],
        deselect_file_button_interactive := False,
        selected_text_value := ''All files'',
        delete_file_button_interactive := False,
        selection := AllFiles\<rparr>
     = initial_session\<lparr>ingested_dataset_value := [a_pdf]\<rparr>"
    by (simp add: example_defs controller_defs binding_defs)
  from delete_selected_file_atomic [OF sel] sel files rest eq
  show ?thesis by simp
qed

subsection \<open>The selection never dangles\<close>

lemma step_inv: "session_inv s \<Longrightarrow> session_inv (step ingest ev s)"
  by (cases ev)
     (auto simp: session_inv_def selection_valid_def controller_defs binding_defs
        split: selection.splits)

lemma run_inv: "session_inv s \<Longrightarrow> session_inv (run ingest evs s)"
  by (induction evs arbitrary: s) (simp_all add: step_inv)

lemma initial_inv: "session_inv initial_session"
  by (simp add: session_inv_def selection_valid_def initial_session_def build_ui_blocks_def)

text \<open>
  C7. After every sequence of user actions from the initial session (uploads,
  delete-selected and delete-all with either outcome of the external call, and also
  selections, de-selections and sidebar toggles), the selection is the sentinel or names a
  file that the list holds, and the delete-selected and the de-select button are each
  interactive if and only if the selection is not the sentinel. A prefix of a sequence is a
  sequence, so this holds after each single transition.
\<close>

theorem selection_never_dangling:
  "selection_valid (run ingest evs initial_session)
   \<and> delete_file_button_interactive (run ingest evs initial_session)
       = (selection (run ingest evs initial_session) \<noteq> AllFiles)
   \<and> deselect_file_button_interactive (run ingest evs initial_session)
       = (selection (run ingest evs initial_session) \<noteq> AllFiles)"
  using run_inv [OF initial_inv, of ingest evs] by (simp add: session_inv_def)

theorem selection_never_dangling_witness:
  "selection session_b_selected = OneFile b_pdf
   \<and> ingested_dataset_value session_b_selected = [a_pdf, b_pdf]
   \<and> selection_valid session_b_selected
   \<and> delete_file_button_interactive session_b_selected
   \<and> deselect_file_button_interactive session_b_selected
   \<and> selection session_emptied = AllFiles
   \<and> ingested_dataset_value session_emptied = []
   \<and> selection_valid session_emptied
   \<and> \<not> delete_file_button_interactive session_emptied
   \<and> \<not> deselect_file_button_interactive session_emptied"
proof -
  have sel: "selection session_b_selected = OneFile b_pdf"
    by (simp add: example_defs controller_defs binding_defs)
  have files: "ingested_dataset_value session_b_selected = [a_pdf, b_pdf]"
    by (simp add: example_defs controller_defs binding_defs)
  have none: "selection session_emptied = AllFiles"
    by (simp add: session_emptied_def example_defs controller_defs binding_defs)
  have empty: "ingested_dataset_value session_emptied = []"
    by (simp add: session_emptied_def example_defs controller_defs binding_defs)
  note inv_b =
    selection_never_dangling
      [of ingest_by_name "[UploadFiles [''a.pdf'', ''b.pdf''], SelectFile b_pdf]",
       folded session_b_selected_def]
  note inv_e =
    selection_never_dangling
      [of ingest_by_name
          "[UploadFiles [''a.pdf'', ''b.pdf''], SelectFile b_pdf, DeleteSelected True,
            UploadFiles [''b.pdf''], DeleteAll True]",
       folded session_emptied_def]
  from inv_b inv_e sel files none empty show ?thesis by simp
qed

subsection \<open>Uploading files\<close>

text \<open>
  C8. An upload appends to the list one file per path, in the order of the paths, and
  changes nothing else: the selection and the delete-selected button are as before. From
  the initial session, uploading \<^verbatim>\<open>a.pdf\<close> and \<^verbatim>\<open>b.pdf\<close> gives the list of these two files in
  this order, with the selection still the sentinel and the delete-selected button still
  not interactive.
\<close>

theorem upload_files_appends:
  "upload_files ingest paths s =
     s\<lparr>ingested_dataset_value := ingested_dataset_value s @ map ingest paths\<rparr>
   \<and> length (ingested_dataset_value (upload_files ingest paths s))
       = length (ingested_dataset_value s) + length paths
   \<and> selection (upload_files ingest paths s) = selection s
   \<and> delete_file_button_interactive (upload_files ingest paths s)
       = delete_file_button_interactive s
   \<and> ingested_dataset_value (upload_files ingest [''a.pdf'', ''b.pdf''] initial_session)
       = [ingest ''a.pdf'', ingest ''b.pdf'']
   \<and> selection (upload_files ingest [''a.pdf'', ''b.pdf''] initial_session) = AllFiles
   \<and> \<not> delete_file_button_interactive
         (upload_files ingest [''a.pdf'', ''b.pdf''] initial_session)"
  by (simp add: upload_files_def upload_button_upload_def initial_session_def
        build_ui_blocks_def)

subsection \<open>The sidebar toggle\<close>

text \<open>
  C9. In every state, a click on the sidebar button negates the stored flag
  \<^verbatim>\<open>sidebar_state\<close>, sets the visibility of the sidebar column to the new flag, and changes no
  other component: the mode, the file list and the selection are as before. The flag and
  the column's visibility are both false when the blocks are built.
\<close>

theorem toggle_sidebar_flips:
  "click_btn_toggle_sidebar b =
     b\<lparr>sidebar_left_visible := \<not> sidebar_state_value b,
       sidebar_state_value := \<not> sidebar_state_value b\<rparr>
   \<and> sidebar_state_value (click_btn_toggle_sidebar b) = (\<not> sidebar_state_value b)
   \<and> sidebar_left_visible (click_btn_toggle_sidebar b)
       = sidebar_state_value (click_btn_toggle_sidebar b)
   \<and> mode_value (click_btn_toggle_sidebar b) = mode_value b
   \<and> ingested_dataset_value (click_btn_toggle_sidebar b) = ingested_dataset_value b
   \<and> selection (step ingest ToggleSidebar s) = selection s
   \<and> step ingest ToggleSidebar s =
       s\<lparr>sidebar_left_visible := \<not> sidebar_state_value s,
         sidebar_state_value := \<not> sidebar_state_value s\<rparr>
   \<and> sidebar_state_value (build_ui_blocks rest) = False
   \<and> sidebar_left_visible (build_ui_blocks rest) = False"
  by (simp add: click_btn_toggle_sidebar_def toggle_sidebar_def btn_toggle_sidebar_click_def
        build_ui_blocks_def Let_def)

subsection \<open>The delete-all button\<close>

lemma apply_update_delete_files:
  "delete_files_button \<noteq> c
   \<Longrightarrow> delete_files_button_interactive (apply_update c u b) = delete_files_button_interactive b"
  by (cases c; cases u) simp_all

lemma fire_delete_files:
  "delete_files_button \<notin> set cs
   \<Longrightarrow> delete_files_button_interactive (fire cs us b) = delete_files_button_interactive b"
  by (induction cs us b rule: fire.induct) (simp_all add: apply_update_delete_files)

lemma bindings_spare_delete_files:
  "l \<in> set bindings \<Longrightarrow> delete_files_button \<notin> set (outputs l)"
  by (auto simp: binding_defs)

lemma fire_all_delete_files:
  "\<forall>(l, us) \<in> set fs. l \<in> set bindings
   \<Longrightarrow> delete_files_button_interactive (fire_all fs b) = delete_files_button_interactive b"
  by (induction fs b rule: fire_all.induct)
     (auto simp: fire_delete_files bindings_spare_delete_files)

text \<open>
  C10. The delete-all button is interactive when the blocks are built. No listener of the
  source has it among its outputs, so firing any listener, whatever its function returns,
  leaves the button's \<^verbatim>\<open>interactive\<close> property as it was; after any run of listeners from
  the built blocks the button is therefore still interactive, whatever the file list and
  the selection are, the initial state with no file and no selection included.
\<close>

theorem delete_all_always_enabled:
  "delete_files_button_interactive (build_ui_blocks rest)
   \<and> (l \<in> set bindings \<longrightarrow>
        delete_files_button \<notin> set (outputs l)
        \<and> delete_files_button_interactive (fire (outputs l) us b)
            = delete_files_button_interactive b)
   \<and> ((\<forall>(l, us) \<in> set fs. l \<in> set bindings)
        \<longrightarrow> delete_files_button_interactive (fire_all fs (build_ui_blocks rest)))"
  using fire_all_delete_files [of fs "build_ui_blocks rest"]
    bindings_spare_delete_files [of l] fire_delete_files [of "outputs l" us b]
  by (simp add: build_ui_blocks_def)

theorem delete_all_always_enabled_witness:
  "delete_files_button_interactive (build_ui_blocks ())
   \<and> delete_files_button_click \<in> set bindings
   \<and> delete_files_button_interactive
       (fire (outputs delete_files_button_click)
          [Value_rows [], Interactive False, Interactive False, Value_text ''All files'']
          (build_ui_blocks ()))
   \<and> delete_files_button_interactive
       (fire_all
          [(ingested_dataset_select,
              [Interactive True, Interactive True, Value_text ''a.pdf'']),
           (delete_files_button_click,
              [Value_rows [], Interactive False, Interactive False, Value_text ''All files'']),
           (deselect_file_button_click,
              [Interactive False, Interactive False, Interactive False])]
          (build_ui_blocks ()))"
  using delete_all_always_enabled
    [of "()" delete_files_button_click
        "[Value_rows [], Interactive False, Interactive False, Value_text ''All files'']"
        "build_ui_blocks ()"
        "[(ingested_dataset_select,
             [Interactive True, Interactive True, Value_text ''a.pdf'']),
          (delete_files_button_click,
             [Value_rows [], Interactive False, Interactive False, Value_text ''All files'']),
          (deselect_file_button_click,
             [Interactive False, Interactive False, Interactive False])]"]
  by (simp add: bindings_def)


end
